theory Spec2Isabelle
  imports Main
begin

section \<open>JSON values as the handler sees them\<close>

text \<open>
  The edge function \<open>send-push-notification\<close> destructures three fields out of the parsed
  request body and only ever tests them for truthiness, compares \<open>new_status\<close> with
  \<open>"approved"\<close>, and copies them into the payload. A field is absent (\<open>JUndefined\<close>) or a
  JSON scalar. For a number only whether it is zero matters.
\<close>

datatype jsval = JUndefined | JNull | JBool bool | JNum int | JStr string

fun truthy :: "jsval \<Rightarrow> bool" where
  "truthy JUndefined = False"
| "truthy JNull = False"
| "truthy (JBool b) = b"
| "truthy (JNum n) = (n \<noteq> 0)"
| "truthy (JStr s) = (s \<noteq> [])"

text \<open>\<open>Deno.env.get\<close> yields a string or \<open>undefined\<close>; the empty string is falsy too.\<close>

fun truthy_env :: "string option \<Rightarrow> bool" where
  "truthy_env None = False"
| "truthy_env (Some s) = (s \<noteq> [])"

section \<open>Requests, environment, responses\<close>

record notify_request =
  signalement_id :: jsval
  req_user_id :: jsval
  new_status :: jsval

text \<open>
  \<open>json\<close> is the outcome of \<open>await req.json()\<close> followed by the destructuring:
  \<open>Inl msg\<close> when either throws (\<open>msg\<close> is \<open>String(err)\<close>), \<open>Inr b\<close> otherwise.
\<close>

record http_request =
  http_method :: string
  json :: "string + notify_request"

record env =
  VAPID_PUBLIC_KEY :: "string option"
  VAPID_PRIVATE_KEY :: "string option"
  VAPID_SUBJECT :: "string option"

text \<open>
  Every response of the handler carries the same CORS headers; they are left out.
  \<open>resp_body = None\<close> is the \<open>null\<close> body of the preflight answer, otherwise the body is
  the JSON object written as its list of members.
\<close>

record response =
  status :: nat
  resp_body :: "(string \<times> jsval) list option"

definition json_response :: "nat \<Rightarrow> (string \<times> jsval) list \<Rightarrow> response" where
  "json_response st members = \<lparr>status = st, resp_body = Some members\<rparr>"

section \<open>The subscription table\<close>

text \<open>
  A row of \<open>public.push_subscriptions\<close> with the columns the code reads and writes
  (\<open>id\<close> and \<open>created_at\<close> are defaulted by the database and never read).
\<close>

record push_row =
  user_id :: string
  endpoint :: string
  p256dh :: string
  auth :: string

datatype store_op = Select jsval | Delete "string list"

record pushSubscription =
  sub_endpoint :: string
  keys_p256dh :: string
  keys_auth :: string

text \<open>
  What \<open>webpush.sendNotification\<close> does to the awaiting caller: the promise resolves, or it
  rejects with an error object whose \<open>statusCode\<close> is a number or absent.
\<close>

datatype send_result = Resolved | Rejected "int option"

text \<open>
  The notification as handed to \<open>JSON.stringify\<close>. Strings are UTF-8 byte sequences.
  \<open>tag\<close> is the template literal: its fixed prefix and the interpolated value.
  \<open>data\<close> is the pair \<open>(signalement_id, status)\<close>.
\<close>

record notification =
  title :: string
  body :: string
  icon :: string
  badge :: string
  tag :: "string \<times> jsval"
  data :: "jsval \<times> jsval"

text \<open>
  The world outside the handler: the table, whether the store answers the lookup and the
  delete with an error, whether \<open>webpush.setVapidDetails\<close> throws on the given details
  (\<open>Some msg\<close>), and the push service, which decides the result of the k-th call of
  \<open>sendNotification\<close> of this run. Two logs record the store calls and the sends issued.
\<close>

record world =
  table :: "push_row list"
  select_error :: bool
  delete_error :: bool
  vapid_check :: "string \<Rightarrow> string \<Rightarrow> string \<Rightarrow> string option"
  transport :: "nat \<Rightarrow> send_result"
  store_log :: "store_op list"
  attempts :: "(pushSubscription \<times> notification) list"

text \<open>\<open>from("push_subscriptions").select("*").eq("user_id", user_id)\<close>: data and error.\<close>

definition select_by_user :: "jsval \<Rightarrow> world \<Rightarrow> (push_row list option \<times> bool) \<times> world" where
  "select_by_user uid w =
     ((if select_error w then (None, True)
       else (Some (filter (\<lambda>r. JStr (user_id r) = uid) (table w)), False)),
      w\<lparr>store_log := store_log w @ [Select uid]\<rparr>)"

text \<open>\<open>from("push_subscriptions").delete().in("endpoint", failedEndpoints)\<close>; the result is ignored.\<close>

definition delete_in :: "string list \<Rightarrow> world \<Rightarrow> world" where
  "delete_in eps w =
     w\<lparr>table := (if delete_error w then table w
                 else filter (\<lambda>r. endpoint r \<notin> set eps) (table w)),
       store_log := store_log w @ [Delete eps]\<rparr>"

definition sendNotification ::
  "pushSubscription \<Rightarrow> notification \<Rightarrow> world \<Rightarrow> send_result \<times> world" where
  "sendNotification ps p w =
     (transport w (length (attempts w)), w\<lparr>attempts := attempts w @ [(ps, p)]\<rparr>)"

section \<open>The handler\<close>

definition title_approved :: string where
  "title_approved = [CHR 0xE2, CHR 0x9C, CHR 0x85] @ '' Signalement approuv'' @ [CHR 0xC3, CHR 0xA9]"

definition title_rejected :: string where
  "title_rejected = [CHR 0xE2, CHR 0x9D, CHR 0x8C] @ '' Signalement rejet'' @ [CHR 0xC3, CHR 0xA9]"

definition body_approved :: string where
  "body_approved = ''Votre signalement a '' @ [CHR 0xC3, CHR 0xA9] @ ''t'' @ [CHR 0xC3, CHR 0xA9]
     @ '' approuv'' @ [CHR 0xC3, CHR 0xA9] @ '' par l'' @ [CHR 0x27] @ ''administrateur.''"

definition body_rejected :: string where
  "body_rejected = ''Votre signalement a '' @ [CHR 0xC3, CHR 0xA9] @ ''t'' @ [CHR 0xC3, CHR 0xA9]
     @ '' rejet'' @ [CHR 0xC3, CHR 0xA9] @ '' par l'' @ [CHR 0x27] @ ''administrateur.''"

definition notificationPayload :: "notify_request \<Rightarrow> notification" where
  "notificationPayload b =
     (let isApproved = (new_status b = JStr ''approved'') in
      \<lparr>title = (if isApproved then title_approved else title_rejected),
       body = (if isApproved then body_approved else body_rejected),
       icon = ''/pwa-192x192.png'',
       badge = ''/pwa-192x192.png'',
       tag = (''signalement-'', signalement_id b),
       data = (signalement_id b, new_status b)\<rparr>)"

text \<open>
  One pass of the body of \<open>for (const sub of subscriptions)\<close>: the \<open>try\<close> sends and counts,
  the \<open>catch\<close> looks at \<open>statusCode\<close> and may push the endpoint on \<open>failedEndpoints\<close>.
  The loop state is \<open>(sent, failedEndpoints, world)\<close>.
\<close>

definition attempt ::
  "notification \<Rightarrow> push_row \<Rightarrow> nat \<times> string list \<times> world \<Rightarrow> nat \<times> string list \<times> world" where
  "attempt p sub st =
     (case st of (sent, failedEndpoints, w) \<Rightarrow>
        (let pushSubscription =
               \<lparr>sub_endpoint = endpoint sub, keys_p256dh = p256dh sub, keys_auth = auth sub\<rparr>
         in case sendNotification pushSubscription p w of
              (Resolved, w') \<Rightarrow> (sent + 1, failedEndpoints, w')
            | (Rejected statusCode, w') \<Rightarrow>
                (if statusCode = Some 410 \<or> statusCode = Some 404
                 then (sent, failedEndpoints @ [endpoint sub], w')
                 else (sent, failedEndpoints, w'))))"

fun send_loop ::
  "notification \<Rightarrow> push_row list \<Rightarrow> nat \<times> string list \<times> world \<Rightarrow> nat \<times> string list \<times> world" where
  "send_loop p [] st = st"
| "send_loop p (sub # subscriptions) st = send_loop p subscriptions (attempt p sub st)"

text \<open>The part of the handler after the subscriptions were found: payload, loop, prune, answer.\<close>

definition dispatch :: "notify_request \<Rightarrow> push_row list \<Rightarrow> world \<Rightarrow> response \<times> world" where
  "dispatch b subscriptions w =
     (case send_loop (notificationPayload b) subscriptions (0, [], w) of
        (sent, failedEndpoints, w') \<Rightarrow>
          (json_response 200
             [(''sent'', JNum (int sent)), (''failed'', JNum (int (length failedEndpoints)))],
           if length failedEndpoints > 0 then delete_in failedEndpoints w' else w'))"

text \<open>
  The handler from the field check on, for a parsed body \<open>b\<close>: the field check, the VAPID
  check, \<open>webpush.setVapidDetails\<close> (a throw there ends in the outer \<open>catch\<close>), the lookup.
\<close>

definition notify :: "env \<Rightarrow> notify_request \<Rightarrow> world \<Rightarrow> response \<times> world" where
  "notify e b w =
     (if \<not> truthy (signalement_id b) \<or> \<not> truthy (req_user_id b) \<or> \<not> truthy (new_status b)
      then (json_response 400 [(''error'', JStr ''Missing fields'')], w)
      else
        (let vapidPublicKey = VAPID_PUBLIC_KEY e;
             vapidPrivateKey = VAPID_PRIVATE_KEY e;
             vapidSubject = (if truthy_env (VAPID_SUBJECT e) then the (VAPID_SUBJECT e)
                             else ''mailto:admin@lampatrack.app'')
         in if \<not> truthy_env vapidPublicKey \<or> \<not> truthy_env vapidPrivateKey
            then (json_response 500 [(''error'', JStr ''VAPID keys not configured'')], w)
            else
              (case vapid_check w vapidSubject (the vapidPublicKey) (the vapidPrivateKey) of
                 Some msg \<Rightarrow> (json_response 500 [(''error'', JStr msg)], w)
               | None \<Rightarrow>
                   (case select_by_user (req_user_id b) w of
                      ((subscriptions, subError), w1) \<Rightarrow>
                        (if subError \<or> subscriptions = None \<or> length (the subscriptions) = 0
                         then (json_response 200
                                 [(''sent'', JNum 0),
                                  (''message'', JStr ''No subscriptions found'')],
                               w1)
                         else dispatch b (the subscriptions) w1)))))"

text \<open>
  \<open>Deno.serve(async (req) => ...)\<close>: the preflight answer, then the outer \<open>try\<close>; a throw
  of \<open>req.json()\<close> ends in the outer \<open>catch\<close>, which answers 500 with \<open>String(err)\<close>.
  \<open>createClient\<close> only builds the client object and touches no store.
\<close>

definition serve :: "env \<Rightarrow> http_request \<Rightarrow> world \<Rightarrow> response \<times> world" where
  "serve e req w =
     (if http_method req = ''OPTIONS'' then (\<lparr>status = 200, resp_body = None\<rparr>, w)
      else
        (case json req of
           Inl msg \<Rightarrow> (json_response 500 [(''error'', JStr msg)], w)
         | Inr b \<Rightarrow> notify e b w))"

section \<open>Notions used to state the properties\<close>

text \<open>
  The outcome of a delivery attempt in the words of the specification: success is
  \<open>delivered\<close>; the codes "gone" (410) and "not found" (404) are \<open>permanent_failure\<close>;
  every other failure is \<open>transient_failure\<close>.
\<close>

datatype outcome = delivered | transient_failure | permanent_failure

fun classify :: "send_result \<Rightarrow> outcome" where
  "classify Resolved = delivered"
| "classify (Rejected statusCode) =
     (if statusCode = Some 410 \<or> statusCode = Some 404 then permanent_failure
      else transient_failure)"

text \<open>The object built at the top of the \<open>try\<close> block from a row.\<close>

definition pushSubscription_of :: "push_row \<Rightarrow> pushSubscription" where
  "pushSubscription_of sub =
     \<lparr>sub_endpoint = endpoint sub, keys_p256dh = p256dh sub, keys_auth = auth sub\<rparr>"

text \<open>The results the push service gives to the next \<open>n\<close> sends issued from world \<open>w\<close>.\<close>

definition results :: "world \<Rightarrow> nat \<Rightarrow> send_result list" where
  "results w n = map (transport w) [length (attempts w) ..< length (attempts w) + n]"

text \<open>The world after one send of \<open>p\<close> to each row of \<open>subs\<close>, in order, and nothing else.\<close>

definition logged :: "notification \<Rightarrow> push_row list \<Rightarrow> world \<Rightarrow> world" where
  "logged p subs w =
     w\<lparr>attempts := attempts w @ map (\<lambda>sub. (pushSubscription_of sub, p)) subs\<rparr>"

text \<open>The endpoints of the attempts classified permanent, one entry per such attempt, in order.\<close>

definition pruned :: "push_row list \<Rightarrow> send_result list \<Rightarrow> string list" where
  "pruned subs rs =
     map (endpoint \<circ> fst) (filter (\<lambda>(sub, r). classify r = permanent_failure) (zip subs rs))"

text \<open>The rows the lookup for \<open>uid\<close> matches.\<close>

definition subscriptions_of :: "jsval \<Rightarrow> world \<Rightarrow> push_row list" where
  "subscriptions_of uid w = filter (\<lambda>r. JStr (user_id r) = uid) (table w)"

definition vapidSubject_of :: "env \<Rightarrow> string" where
  "vapidSubject_of e =
     (if truthy_env (VAPID_SUBJECT e) then the (VAPID_SUBJECT e)
      else ''mailto:admin@lampatrack.app'')"

text \<open>
  A request that reaches the lookup: not a preflight, a body that parsed to \<open>b\<close> with its
  three fields present, both VAPID keys set and accepted by \<open>webpush.setVapidDetails\<close>.
\<close>

definition valid_configured :: "env \<Rightarrow> http_request \<Rightarrow> notify_request \<Rightarrow> world \<Rightarrow> bool" where
  "valid_configured e req b w =
     (http_method req \<noteq> ''OPTIONS'' \<and> json req = Inr b
      \<and> truthy (signalement_id b) \<and> truthy (req_user_id b) \<and> truthy (new_status b)
      \<and> truthy_env (VAPID_PUBLIC_KEY e) \<and> truthy_env (VAPID_PRIVATE_KEY e)
      \<and> vapid_check w (vapidSubject_of e) (the (VAPID_PUBLIC_KEY e)) (the (VAPID_PRIVATE_KEY e))
          = None)"

text \<open>A request that reaches the loop: the lookup succeeds and finds at least one row.\<close>

definition dispatching :: "env \<Rightarrow> http_request \<Rightarrow> notify_request \<Rightarrow> world \<Rightarrow> bool" where
  "dispatching e req b w =
     (valid_configured e req b w \<and> \<not> select_error w
      \<and> subscriptions_of (req_user_id b) w \<noteq> [])"

text \<open>The table constraint \<open>UNIQUE(user_id, endpoint)\<close> of the migration.\<close>

definition unique_key :: "push_row list \<Rightarrow> bool" where
  "unique_key tbl = distinct (map (\<lambda>r. (user_id r, endpoint r)) tbl)"

section \<open>The loop on a clock\<close>




text \<open>The time the \<open>i\<close> sends numbered \<open>n\<close>, \<open>n + 1\<close>, ... take one after another.\<close>

definition elapsed :: "(nat \<Rightarrow> nat) \<Rightarrow> nat \<Rightarrow> nat \<Rightarrow> nat" where
  "elapsed latency n i = sum_list (map latency [n ..< n + i])"

section \<open>Registration: the upsert of the browser hook under row-level security\<close>

text \<open>
  The session a statement runs in: \<open>auth.uid()\<close> and whether
  \<open>has_role(auth.uid(), 'admin')\<close> holds. The hook runs in the signed-in user's session.
\<close>

record session =
  auth_uid :: "string option"
  has_admin_role :: bool

text \<open>
  The policies of the migration. The table has row-level security enabled, so a command is
  allowed on a row only if one of the policies for that command accepts the row:
  for INSERT, SELECT and DELETE the owner's policy (\<open>auth.uid() = user_id\<close>) or the admin's
  \<open>FOR ALL\<close> policy; for UPDATE the admin's \<open>FOR ALL\<close> policy alone, since no other policy
  names UPDATE.
\<close>

definition admin_policy :: "session \<Rightarrow> bool" where
  "admin_policy s = (auth_uid s \<noteq> None \<and> has_admin_role s)"

definition insert_allowed :: "session \<Rightarrow> push_row \<Rightarrow> bool" where
  "insert_allowed s r = (auth_uid s = Some (user_id r) \<or> admin_policy s)"

definition select_allowed :: "session \<Rightarrow> push_row \<Rightarrow> bool" where
  "select_allowed s r = (auth_uid s = Some (user_id r) \<or> admin_policy s)"

definition delete_allowed :: "session \<Rightarrow> push_row \<Rightarrow> bool" where
  "delete_allowed s r = (auth_uid s = Some (user_id r) \<or> admin_policy s)"

definition update_allowed :: "session \<Rightarrow> push_row \<Rightarrow> bool" where
  "update_allowed s r = admin_policy s"

datatype store_error = RlsViolation

text \<open>The effect of \<open>ON CONFLICT (user_id, endpoint) DO UPDATE\<close> once it is allowed.\<close>

fun replace_row :: "push_row \<Rightarrow> push_row list \<Rightarrow> push_row list" where
  "replace_row new [] = []"
| "replace_row new (r # rs) =
     (if user_id r = user_id new \<and> endpoint r = endpoint new then new # replace_row new rs
      else r # replace_row new rs)"

text \<open>
  \<open>from('push_subscriptions').upsert(row, { onConflict: 'user_id,endpoint' })\<close> in session
  \<open>s\<close>. Without a row of the same \<open>(user_id, endpoint)\<close> the row is inserted if the INSERT
  policies accept it. With one, the statement takes the update path: the existing row must
  pass the SELECT and UPDATE policies and the new row the UPDATE policies, otherwise the
  database raises an error and the table stays as it was.
\<close>

definition upsert :: "session \<Rightarrow> push_row \<Rightarrow> push_row list \<Rightarrow> store_error + push_row list" where
  "upsert s new tbl =
     (case filter (\<lambda>r. user_id r = user_id new \<and> endpoint r = endpoint new) tbl of
        [] \<Rightarrow> (if insert_allowed s new then Inr (tbl @ [new]) else Inl RlsViolation)
      | existing # _ \<Rightarrow>
          (if select_allowed s existing \<and> update_allowed s existing \<and> update_allowed s new
           then Inr (replace_row new tbl) else Inl RlsViolation))"

text \<open>The row the hook hands to \<open>upsert\<close>: the user's id and the browser subscription's JSON.\<close>

definition subscription_row :: "string \<Rightarrow> pushSubscription \<Rightarrow> push_row" where
  "subscription_row uid subJson =
     \<lparr>user_id = uid, endpoint = sub_endpoint subJson,
      p256dh = keys_p256dh subJson, auth = keys_auth subJson\<rparr>"

text \<open>
  The store side of \<open>subscribe\<close> in \<open>usePushNotifications\<close>, for a supported browser that
  granted the permission and returned the subscription \<open>subJson\<close>: nothing without a user;
  otherwise the upsert, whose error is thrown and ends in the \<open>catch\<close> with the failure
  toast, and whose success sets \<open>isSubscribed\<close>.
\<close>

datatype subscribe_result = NoUser | Activated | ActivationFailed store_error

definition subscribe ::
  "session \<Rightarrow> pushSubscription \<Rightarrow> push_row list \<Rightarrow> subscribe_result \<times> push_row list" where
  "subscribe s subJson tbl =
     (case auth_uid s of
        None \<Rightarrow> (NoUser, tbl)
      | Some uid \<Rightarrow>
          (case upsert s (subscription_row uid subJson) tbl of
             Inl error \<Rightarrow> (ActivationFailed error, tbl)
           | Inr tbl' \<Rightarrow> (Activated, tbl')))"

section \<open>Concrete requests and worlds\<close>

definition env0 :: env where
  "env0 = \<lparr>VAPID_PUBLIC_KEY = Some ''BPub'', VAPID_PRIVATE_KEY = Some ''priv'',
           VAPID_SUBJECT = None\<rparr>"

definition env_nokeys :: env where
  "env_nokeys = \<lparr>VAPID_PUBLIC_KEY = None, VAPID_PRIVATE_KEY = Some ''priv'',
                 VAPID_SUBJECT = None\<rparr>"

definition body0 :: "jsval \<Rightarrow> notify_request" where
  "body0 st = \<lparr>signalement_id = JStr ''s1'', req_user_id = JStr ''u1'', new_status = st\<rparr>"

definition post :: "notify_request \<Rightarrow> http_request" where
  "post b = \<lparr>http_method = ''POST'', json = Inr b\<rparr>"

definition row :: "string \<Rightarrow> string \<Rightarrow> push_row" where
  "row u ep = \<lparr>user_id = u, endpoint = ep, p256dh = ''k'', auth = ''a''\<rparr>"

text \<open>
  A push service that delivers the first send, answers 410 to the second and times out
  (an error without \<open>statusCode\<close>) on every later one.
\<close>

definition service0 :: "nat \<Rightarrow> send_result" where
  "service0 k = (if k = 0 then Resolved else if k = 1 then Rejected (Some 410) else Rejected None)"

definition gone_service :: "nat \<Rightarrow> send_result" where
  "gone_service k = Rejected (Some 410)"

definition world_of :: "push_row list \<Rightarrow> bool \<Rightarrow> (nat \<Rightarrow> send_result) \<Rightarrow> world" where
  "world_of tbl failing svc =
     \<lparr>table = tbl, select_error = failing, delete_error = False,
      vapid_check = (\<lambda>subject pub priv. None), transport = svc,
      store_log = [], attempts = []\<rparr>"

definition table3 :: "push_row list" where
  "table3 = [row ''u1'' ''https://push/a'', row ''u1'' ''https://push/b'',
             row ''u2'' ''https://push/z'', row ''u1'' ''https://push/c'']"

definition table_dup :: "push_row list" where
  "table_dup = [row ''u1'' ''https://push/a'', row ''u1'' ''https://push/a'']"

text \<open>A request whose body is empty: \<open>req.json()\<close> throws.\<close>

definition unparsed :: http_request where
  "unparsed = \<lparr>http_method = ''POST'',
                json = Inl ''SyntaxError: Unexpected end of JSON input''\<rparr>"


text \<open>An ordinary signed-in user.\<close>

definition user1 :: session where
  "user1 = \<lparr>auth_uid = Some ''u1'', has_admin_role = False\<rparr>"

definition browser_sub :: "string \<Rightarrow> string \<Rightarrow> pushSubscription" where
  "browser_sub k a = \<lparr>sub_endpoint = ''https://push/n'', keys_p256dh = k, keys_auth = a\<rparr>"

section \<open>The loop, attempt by attempt\<close>

lemma attempt_eq:
  "attempt p sub (sent, failedEndpoints, w) =
     (case classify (transport w (length (attempts w))) of
        delivered \<Rightarrow> (sent + 1, failedEndpoints, logged p [sub] w)
      | permanent_failure \<Rightarrow> (sent, failedEndpoints @ [endpoint sub], logged p [sub] w)
      | transient_failure \<Rightarrow> (sent, failedEndpoints, logged p [sub] w))"
  by (cases "transport w (length (attempts w))")
     (simp_all add: attempt_def sendNotification_def logged_def pushSubscription_of_def)

lemma results_Suc:
  "results w (Suc n) = transport w (length (attempts w)) # results (logged p [sub] w) n"
  by (simp add: results_def logged_def upt_rec)

lemma logged_Cons: "logged p subs (logged p [sub] w) = logged p (sub # subs) w"
  by (simp add: logged_def)

lemma send_loop_char:
  "send_loop p subs (sent, failedEndpoints, w) =
     (sent + length (filter (\<lambda>r. classify r = delivered) (results w (length subs))),
      failedEndpoints @ pruned subs (results w (length subs)),
      logged p subs w)"
proof (induction subs arbitrary: sent failedEndpoints w)
  case Nil
  show ?case by (simp add: results_def pruned_def logged_def)
next
  case (Cons sub subs)
  show ?case
    by (cases "classify (transport w (length (attempts w)))")
       (simp_all add: attempt_eq Cons.IH results_Suc [of w _ p sub] logged_Cons pruned_def)
qed

section \<open>The handler on a request that reaches the lookup\<close>

lemma select_by_user_eq:
  "select_by_user uid w =
     ((if select_error w then (None, True) else (Some (subscriptions_of uid w), False)),
      w\<lparr>store_log := store_log w @ [Select uid]\<rparr>)"
  by (simp add: select_by_user_def subscriptions_of_def)

lemma results_store_log [simp]: "results (w\<lparr>store_log := l\<rparr>) n = results w n"
  by (simp add: results_def)

lemma dispatch_char:
  "dispatch b subs w =
     (json_response 200
        [(''sent'', JNum (int (length (filter (\<lambda>r. classify r = delivered)
                                         (results w (length subs)))))),
         (''failed'', JNum (int (length (pruned subs (results w (length subs))))))],
      if pruned subs (results w (length subs)) = []
      then logged (notificationPayload b) subs w
      else delete_in (pruned subs (results w (length subs)))
             (logged (notificationPayload b) subs w))"
  by (simp add: dispatch_def send_loop_char)

lemma serve_valid:
  assumes "valid_configured e req b w"
  shows "serve e req w =
     (if select_error w \<or> subscriptions_of (req_user_id b) w = []
      then (json_response 200
              [(''sent'', JNum 0), (''message'', JStr ''No subscriptions found'')],
            w\<lparr>store_log := store_log w @ [Select (req_user_id b)]\<rparr>)
      else dispatch b (subscriptions_of (req_user_id b) w)
             (w\<lparr>store_log := store_log w @ [Select (req_user_id b)]\<rparr>))"
  using assms
  by (simp add: valid_configured_def serve_def notify_def select_by_user_eq vapidSubject_of_def)

lemma distinct_endpoint_filter:
  "distinct (map (\<lambda>r. (user_id r, endpoint r)) tbl) \<Longrightarrow>
   distinct (map endpoint (filter (\<lambda>r. JStr (user_id r) = uid) tbl))"
  by (induction tbl) (auto simp: image_iff)

lemma unique_key_subscriptions:
  "unique_key (table w) \<Longrightarrow> distinct (map endpoint (subscriptions_of uid w))"
  unfolding unique_key_def subscriptions_of_def by (rule distinct_endpoint_filter)

lemma set_pruned: "set (pruned subs rs) \<subseteq> endpoint ` set subs"
  by (auto simp: pruned_def dest: set_zip_leftD)

lemma distinct_pruned: "distinct (map endpoint subs) \<Longrightarrow> distinct (pruned subs rs)"
proof (induction subs arbitrary: rs)
  case Nil
  show ?case by (simp add: pruned_def)
next
  case (Cons sub subs)
  show ?case
  proof (cases rs)
    case Nil
    then show ?thesis by (simp add: pruned_def)
  next
    case (Cons r rs')
    have "endpoint sub \<notin> set (pruned subs rs')"
      using Cons.prems set_pruned [of subs rs'] by auto
    moreover have "distinct (pruned subs rs')"
      using Cons.IH Cons.prems by simp
    ultimately show ?thesis
      using Cons by (simp add: pruned_def)
  qed
qed

lemma serve_dispatching:
  assumes "dispatching e req b w"
  shows "serve e req w =
     (json_response 200
        [(''sent'', JNum (int (length (filter (\<lambda>r. classify r = delivered)
            (results w (length (subscriptions_of (req_user_id b) w))))))),
         (''failed'', JNum (int (length (pruned (subscriptions_of (req_user_id b) w)
            (results w (length (subscriptions_of (req_user_id b) w)))))))],
      if pruned (subscriptions_of (req_user_id b) w)
           (results w (length (subscriptions_of (req_user_id b) w))) = []
      then logged (notificationPayload b) (subscriptions_of (req_user_id b) w)
             (w\<lparr>store_log := store_log w @ [Select (req_user_id b)]\<rparr>)
      else delete_in (pruned (subscriptions_of (req_user_id b) w)
                        (results w (length (subscriptions_of (req_user_id b) w))))
             (logged (notificationPayload b) (subscriptions_of (req_user_id b) w)
                (w\<lparr>store_log := store_log w @ [Select (req_user_id b)]\<rparr>)))"
proof -
  from assms have v: "valid_configured e req b w"
    and n: "\<not> select_error w" "subscriptions_of (req_user_id b) w \<noteq> []"
    by (simp_all add: dispatching_def)
  show ?thesis
    by (simp add: serve_valid [OF v] n dispatch_char)
qed

lemma attempts_delete_in [simp]: "attempts (delete_in eps w) = attempts w"
  by (simp add: delete_in_def)

lemma store_log_delete_in [simp]: "store_log (delete_in eps w) = store_log w @ [Delete eps]"
  by (simp add: delete_in_def)

lemma attempts_logged [simp]:
  "attempts (logged p subs w) = attempts w @ map (\<lambda>sub. (pushSubscription_of sub, p)) subs"
  by (simp add: logged_def)

lemma store_log_logged [simp]: "store_log (logged p subs w) = store_log w"
  by (simp add: logged_def)

lemma count_permanent:
  "count_list (map (endpoint \<circ> fst) (filter (\<lambda>(sub, r). classify r = permanent_failure) zs)) ep =
     length (filter (\<lambda>(sub, r). endpoint sub = ep \<and> classify r = permanent_failure) zs)"
  by (induction zs) auto

lemma count_pruned:
  "count_list (pruned subs rs) ep =
     length (filter (\<lambda>(sub, r). endpoint sub = ep \<and> classify r = permanent_failure) (zip subs rs))"
  by (simp add: pruned_def count_permanent)

lemma length_results [simp]: "length (results w n) = n"
  by (simp add: results_def)

lemma table_delete_in:
  "table (delete_in eps w) =
     (if delete_error w then table w else filter (\<lambda>r. endpoint r \<notin> set eps) (table w))"
  by (simp add: delete_in_def)

lemma delete_error_logged [simp]: "delete_error (logged p subs w) = delete_error w"
  by (simp add: logged_def)

lemma table_logged [simp]: "table (logged p subs w) = table w"
  by (simp add: logged_def)

lemma set_pruned_eq:
  "set (pruned subs rs) = {endpoint sub |sub r. (sub, r) \<in> set (zip subs rs) \<and> classify r = permanent_failure}"
  by (fastforce simp: pruned_def image_iff)

lemma pruned_member:
  assumes "distinct (map endpoint subs)" and "length rs = length subs" and "i < length subs"
  shows "(endpoint (subs ! i) \<in> set (pruned subs rs)) = (classify (rs ! i) = permanent_failure)"
proof
  assume "endpoint (subs ! i) \<in> set (pruned subs rs)"
  then obtain j where j: "j < length subs" "endpoint (subs ! j) = endpoint (subs ! i)"
      "classify (rs ! j) = permanent_failure"
    using assms(2) by (auto simp: set_pruned_eq in_set_zip)
  have "map endpoint subs ! j = map endpoint subs ! i"
    using j assms(3) by simp
  moreover have "j < length (map endpoint subs)" "i < length (map endpoint subs)"
    using j(1) assms(3) by simp_all
  ultimately have "j = i"
    using assms(1) nth_eq_iff_index_eq [of "map endpoint subs" j i] by blast
  with j show "classify (rs ! i) = permanent_failure" by simp
next
  assume "classify (rs ! i) = permanent_failure"
  moreover have "(subs ! i, rs ! i) \<in> set (zip subs rs)"
    using assms(2,3) by (auto simp: in_set_zip)
  ultimately show "endpoint (subs ! i) \<in> set (pruned subs rs)"
    by (auto simp: set_pruned_eq)
qed

lemma table_after_dispatching:
  assumes "dispatching e req b w"
  shows "table (snd (serve e req w)) =
     (if delete_error w then table w
      else filter (\<lambda>r. endpoint r \<notin> set (pruned (subscriptions_of (req_user_id b) w)
                (results w (length (subscriptions_of (req_user_id b) w))))) (table w))"
  by (simp add: serve_dispatching [OF assms] table_delete_in)


lemma subscriptions_in_table: "set (subscriptions_of uid w) \<subseteq> set (table w)"
  by (auto simp: subscriptions_of_def)

lemma retained_after_dispatching:
  assumes "dispatching e req b w" and "unique_key (table w)"
    and "i < length (subscriptions_of (req_user_id b) w)"
    and "classify (results w (length (subscriptions_of (req_user_id b) w)) ! i) \<noteq> permanent_failure"
  shows "subscriptions_of (req_user_id b) w ! i \<in> set (table (snd (serve e req w)))"
proof -
  let ?subs = "subscriptions_of (req_user_id b) w"
  let ?rs = "results w (length ?subs)"
  have "distinct (map endpoint ?subs)"
    using assms(2) by (rule unique_key_subscriptions)
  then have "endpoint (?subs ! i) \<notin> set (pruned ?subs ?rs)"
    using assms(3,4) by (simp add: pruned_member)
  moreover have "?subs ! i \<in> set (table w)"
    using assms(3) subscriptions_in_table [of "req_user_id b" w] nth_mem [of i ?subs] by blast
  ultimately show ?thesis
    by (simp add: table_after_dispatching [OF assms(1)])
qed

section \<open>The loop on a clock and the loop agree\<close>

lemma elapsed_0 [simp]: "elapsed latency n 0 = 0"
  by (simp add: elapsed_def)





section \<open>The upsert under the policies\<close>

lemma upsert_fresh:
  assumes "filter (\<lambda>r. user_id r = user_id new \<and> endpoint r = endpoint new) tbl = []"
    and "insert_allowed s new"
  shows "upsert s new tbl = Inr (tbl @ [new])"
  using assms by (simp add: upsert_def)

lemma upsert_conflict_refused:
  assumes "filter (\<lambda>r. user_id r = user_id new \<and> endpoint r = endpoint new) tbl \<noteq> []"
    and "\<not> admin_policy s"
  shows "upsert s new tbl = Inl RlsViolation"
  using assms by (simp add: upsert_def update_allowed_def split: list.splits)

section \<open>Facts about the concrete worlds\<close>

lemma valid0: "valid_configured env0 (post (body0 st)) (body0 st) (world_of tbl f svc) = truthy st"
  by (simp add: valid_configured_def env0_def post_def body0_def world_of_def)

lemma subs_table3:
  "subscriptions_of (JStr ''u1'') (world_of table3 f svc) =
     [row ''u1'' ''https://push/a'', row ''u1'' ''https://push/b'', row ''u1'' ''https://push/c'']"
  by (simp add: subscriptions_of_def world_of_def table3_def row_def)

lemma dispatching0:
  "dispatching env0 (post (body0 st)) (body0 st) (world_of tbl False svc) =
     (truthy st \<and> filter (\<lambda>r. user_id r = ''u1'') tbl \<noteq> [])"
  by (simp add: dispatching_def valid0) (simp add: world_of_def subscriptions_of_def body0_def)

lemma subs_table_dup:
  "subscriptions_of (JStr ''u1'') (world_of table_dup f svc) =
     [row ''u1'' ''https://push/a'', row ''u1'' ''https://push/a'']"
  by (simp add: subscriptions_of_def world_of_def table_dup_def row_def)

lemma results_gone_service:
  "results (world_of tbl f gone_service) (Suc (Suc 0)) = [Rejected (Some 410), Rejected (Some 410)]"
  by (simp add: results_def world_of_def gone_service_def upt_rec)

lemma results_service0_Suc:
  "results (world_of tbl f service0) (Suc (Suc (Suc 0))) =
     [Resolved, Rejected (Some 410), Rejected None]"
  by (simp add: results_def world_of_def service0_def upt_rec)

lemma unique_table3: "unique_key table3"
  by (simp add: unique_key_def table3_def row_def)

section \<open>Properties of the dispatch handler\<close>

text \<open>
  Claim C2. One pass of the loop body sends once and then does what the outcome of that
  send says: a resolved send adds one to \<open>sent\<close>; a rejection whose \<open>statusCode\<close> is 410 or
  404 (and no other result) is a permanent failure and appends the endpoint to
  \<open>failedEndpoints\<close>; every other rejection is a transient failure and leaves both \<open>sent\<close>
  and \<open>failedEndpoints\<close> as they were. In each case exactly one send is logged, so nothing is
  retried, and the table is not touched. Over a whole batch the prune list is therefore the
  list of endpoints of the attempts classified permanent. For a request that reaches the
  loop on a table satisfying its uniqueness constraint, the endpoint of the i-th
  subscription is in the prune list exactly when its attempt was classified permanent, and
  a subscription whose attempt was delivered or failed transiently is still in the table
  when the handler returns.
\<close>

theorem delivery_attempt_classified:
  "attempt p sub (sent, failedEndpoints, w) =
     (case classify (transport w (length (attempts w))) of
        delivered \<Rightarrow> (sent + 1, failedEndpoints, logged p [sub] w)
      | permanent_failure \<Rightarrow> (sent, failedEndpoints @ [endpoint sub], logged p [sub] w)
      | transient_failure \<Rightarrow> (sent, failedEndpoints, logged p [sub] w))
   \<and> (classify r = permanent_failure) = (r = Rejected (Some 410) \<or> r = Rejected (Some 404))
   \<and> (classify r = delivered) = (r = Resolved)
   \<and> send_loop p subs (sent, failedEndpoints, w) =
       (sent + length (filter (\<lambda>r. classify r = delivered) (results w (length subs))),
        failedEndpoints @ pruned subs (results w (length subs)),
        logged p subs w)
   \<and> (dispatching e req b w \<and> unique_key (table w)
        \<and> i < length (subscriptions_of (req_user_id b) w) \<longrightarrow>
        (endpoint (subscriptions_of (req_user_id b) w ! i)
           \<in> set (pruned (subscriptions_of (req_user_id b) w)
                   (results w (length (subscriptions_of (req_user_id b) w)))))
        = (classify (results w (length (subscriptions_of (req_user_id b) w)) ! i)
             = permanent_failure)
        \<and> (classify (results w (length (subscriptions_of (req_user_id b) w)) ! i)
              \<noteq> permanent_failure \<longrightarrow>
            subscriptions_of (req_user_id b) w ! i \<in> set (table (snd (serve e req w)))))"
proof -
  have "(classify r = permanent_failure) = (r = Rejected (Some 410) \<or> r = Rejected (Some 404))"
    by (cases r) auto
  moreover have "(classify r = delivered) = (r = Resolved)"
    by (cases r) auto
  moreover have "dispatching e req b w \<and> unique_key (table w)
        \<and> i < length (subscriptions_of (req_user_id b) w) \<longrightarrow>
        (endpoint (subscriptions_of (req_user_id b) w ! i)
           \<in> set (pruned (subscriptions_of (req_user_id b) w)
                   (results w (length (subscriptions_of (req_user_id b) w)))))
        = (classify (results w (length (subscriptions_of (req_user_id b) w)) ! i)
             = permanent_failure)"
    by (simp add: pruned_member unique_key_subscriptions)
  moreover have "dispatching e req b w \<and> unique_key (table w)
        \<and> i < length (subscriptions_of (req_user_id b) w) \<longrightarrow>
        (classify (results w (length (subscriptions_of (req_user_id b) w)) ! i)
              \<noteq> permanent_failure \<longrightarrow>
            subscriptions_of (req_user_id b) w ! i \<in> set (table (snd (serve e req w))))"
    using retained_after_dispatching [of e req b w i] by blast
  ultimately show ?thesis
    using attempt_eq [of p sub sent failedEndpoints w]
          send_loop_char [of p subs sent failedEndpoints w]
    by blast
qed

theorem delivery_attempt_classified_witness:
  "attempt (notificationPayload (body0 (JStr ''approved''))) (row ''u1'' ''https://push/b'')
      (1, [], logged (notificationPayload (body0 (JStr ''approved''))) [row ''u1'' ''https://push/a'']
                (world_of table3 False service0))
   = (1, [''https://push/b''],
      logged (notificationPayload (body0 (JStr ''approved''))) [row ''u1'' ''https://push/b'']
        (logged (notificationPayload (body0 (JStr ''approved''))) [row ''u1'' ''https://push/a'']
           (world_of table3 False service0)))
   \<and> classify (Rejected (Some 503)) = transient_failure
   \<and> dispatching env0 (post (body0 (JStr ''approved''))) (body0 (JStr ''approved''))
       (world_of table3 False service0)
   \<and> unique_key (table (world_of table3 False service0))
   \<and> 2 < length (subscriptions_of (req_user_id (body0 (JStr ''approved'')))
                   (world_of table3 False service0))
   \<and> classify (results (world_of table3 False service0) 3 ! 2) = transient_failure
   \<and> row ''u1'' ''https://push/c''
       \<in> set (table (snd (serve env0 (post (body0 (JStr ''approved'')))
                             (world_of table3 False service0))))"
proof -
  have d: "dispatching env0 (post (body0 (JStr ''approved''))) (body0 (JStr ''approved''))
     (world_of table3 False service0)"
    by (simp add: dispatching0 table3_def row_def)
  have u: "unique_key (table (world_of table3 False service0))"
    by (simp add: world_of_def unique_table3)
  have b: "req_user_id (body0 (JStr ''approved'')) = JStr ''u1''"
    by (simp add: body0_def)
  have n: "(3::nat) = Suc (Suc (Suc 0))" "(2::nat) = Suc (Suc 0)"
    by simp_all
  have a: "attempt (notificationPayload (body0 (JStr ''approved''))) (row ''u1'' ''https://push/b'')
      (1, [], logged (notificationPayload (body0 (JStr ''approved''))) [row ''u1'' ''https://push/a'']
                (world_of table3 False service0))
   = (1, [''https://push/b''],
      logged (notificationPayload (body0 (JStr ''approved''))) [row ''u1'' ''https://push/b'']
        (logged (notificationPayload (body0 (JStr ''approved''))) [row ''u1'' ''https://push/a'']
           (world_of table3 False service0)))
   \<and> classify (Rejected (Some 503)) = transient_failure"
    using delivery_attempt_classified
      [of "notificationPayload (body0 (JStr ''approved''))" "row ''u1'' ''https://push/b''" 1 "[]"
          "logged (notificationPayload (body0 (JStr ''approved''))) [row ''u1'' ''https://push/a'']
                  (world_of table3 False service0)" "Rejected (Some 503)" "[]"]
    by (simp add: logged_def world_of_def service0_def row_def)
  have r: "row ''u1'' ''https://push/c''
       \<in> set (table (snd (serve env0 (post (body0 (JStr ''approved'')))
                             (world_of table3 False service0))))"
    using d u delivery_attempt_classified
      [of _ _ _ _ "world_of table3 False service0" _ _ env0 "post (body0 (JStr ''approved''))"
          "body0 (JStr ''approved'')" 2]
    by (simp add: b subs_table3 results_service0_Suc n)
  show ?thesis
    using a d u r by (simp add: b subs_table3 results_service0_Suc n)
qed

text \<open>
  Claim C5. A valid, configured request whose user has no row in the table is answered
  200 with \<open>{ sent: 0, message: "No subscriptions found" }\<close>; the only store call is the
  lookup, so no delete is issued, the table is unchanged and nothing is sent.
\<close>

theorem no_subscriptions_short_circuit:
  assumes "valid_configured e req b w" and "subscriptions_of (req_user_id b) w = []"
  shows "serve e req w =
     (\<lparr>status = 200,
       resp_body = Some [(''sent'', JNum 0), (''message'', JStr ''No subscriptions found'')]\<rparr>,
      w\<lparr>store_log := store_log w @ [Select (req_user_id b)]\<rparr>)"
  using assms by (simp add: serve_valid json_response_def)

theorem no_subscriptions_short_circuit_witness:
  "valid_configured env0 (post (body0 (JStr ''approved''))) (body0 (JStr ''approved''))
     (world_of [row ''u2'' ''https://push/z''] False service0)
   \<and> subscriptions_of (req_user_id (body0 (JStr ''approved'')))
        (world_of [row ''u2'' ''https://push/z''] False service0) = []
   \<and> fst (serve env0 (post (body0 (JStr ''approved'')))
            (world_of [row ''u2'' ''https://push/z''] False service0))
      = \<lparr>status = 200,
         resp_body = Some [(''sent'', JNum 0), (''message'', JStr ''No subscriptions found'')]\<rparr>
   \<and> store_log (snd (serve env0 (post (body0 (JStr ''approved'')))
            (world_of [row ''u2'' ''https://push/z''] False service0))) = [Select (JStr ''u1'')]
   \<and> table (snd (serve env0 (post (body0 (JStr ''approved'')))
            (world_of [row ''u2'' ''https://push/z''] False service0))) = [row ''u2'' ''https://push/z'']"
proof -
  have v: "valid_configured env0 (post (body0 (JStr ''approved''))) (body0 (JStr ''approved''))
     (world_of [row ''u2'' ''https://push/z''] False service0)"
    by (simp add: valid0)
  have s: "subscriptions_of (req_user_id (body0 (JStr ''approved'')))
        (world_of [row ''u2'' ''https://push/z''] False service0) = []"
    by (simp add: subscriptions_of_def body0_def world_of_def row_def)
  show ?thesis
    using v s no_subscriptions_short_circuit [OF v s]
    by (simp add: body0_def world_of_def)
qed

text \<open>
  A POST with an empty body has none of the three fields, yet \<open>req.json()\<close> throws before
  the field check and the outer \<open>catch\<close> answers 500, not 400.
\<close>

theorem unparsed_body_counterexample:
  "serve env0 unparsed (world_of table3 False service0) =
     (\<lparr>status = 500,
       resp_body = Some [(''error'', JStr ''SyntaxError: Unexpected end of JSON input'')]\<rparr>,
      world_of table3 False service0)"
  by (simp add: serve_def unparsed_def json_response_def)

text \<open>
  Claim C6, as the code has it. For a request that is not a preflight: when the body does
  not parse (or is \<open>null\<close>, so that the destructuring throws) the answer is 500 with the
  text of the error; when the body parsed and one of \<open>signalement_id\<close>, \<open>user_id\<close>,
  \<open>new_status\<close> is missing (\<open>JUndefined\<close>, or any other falsy value) the answer is 400 with
  \<open>{ error: "Missing fields" }\<close>; when the three are present and a VAPID key is absent the
  answer is 500 with \<open>{ error: "VAPID keys not configured" }\<close>. In all three cases the world
  is returned as it was: no store read, no store write, no send.
\<close>

theorem validation_and_configuration_abort:
  assumes "http_method req \<noteq> ''OPTIONS''"
  shows "(json req = Inl msg \<longrightarrow>
            serve e req w = (\<lparr>status = 500, resp_body = Some [(''error'', JStr msg)]\<rparr>, w))
       \<and> (json req = Inr b
          \<and> (\<not> truthy (signalement_id b) \<or> \<not> truthy (req_user_id b) \<or> \<not> truthy (new_status b))
          \<longrightarrow> serve e req w =
               (\<lparr>status = 400, resp_body = Some [(''error'', JStr ''Missing fields'')]\<rparr>, w))
       \<and> (json req = Inr b
          \<and> truthy (signalement_id b) \<and> truthy (req_user_id b) \<and> truthy (new_status b)
          \<and> (\<not> truthy_env (VAPID_PUBLIC_KEY e) \<or> \<not> truthy_env (VAPID_PRIVATE_KEY e))
          \<longrightarrow> serve e req w =
               (\<lparr>status = 500, resp_body = Some [(''error'', JStr ''VAPID keys not configured'')]\<rparr>,
                w))"
  using assms by (auto simp: serve_def notify_def json_response_def)

theorem validation_and_configuration_abort_witness:
  "http_method (post (body0 JUndefined)) \<noteq> ''OPTIONS''
   \<and> json (post (body0 JUndefined)) = Inr (body0 JUndefined)
   \<and> \<not> truthy (new_status (body0 JUndefined))
   \<and> serve env0 (post (body0 JUndefined)) (world_of table3 False service0) =
       (\<lparr>status = 400, resp_body = Some [(''error'', JStr ''Missing fields'')]\<rparr>,
        world_of table3 False service0)
   \<and> \<not> truthy_env (VAPID_PUBLIC_KEY env_nokeys)
   \<and> serve env_nokeys (post (body0 (JStr ''approved''))) (world_of table3 False service0) =
       (\<lparr>status = 500, resp_body = Some [(''error'', JStr ''VAPID keys not configured'')]\<rparr>,
        world_of table3 False service0)
   \<and> http_method unparsed \<noteq> ''OPTIONS''
   \<and> json unparsed = Inl ''SyntaxError: Unexpected end of JSON input''
   \<and> status (fst (serve env_nokeys unparsed (world_of [] False service0))) = 500"
  using validation_and_configuration_abort
          [of "post (body0 JUndefined)" _ env0 "world_of table3 False service0" "body0 JUndefined"]
        validation_and_configuration_abort
          [of "post (body0 (JStr ''approved''))" _ env_nokeys
              "world_of table3 False service0" "body0 (JStr ''approved'')"]
        validation_and_configuration_abort
          [of unparsed "''SyntaxError: Unexpected end of JSON input''" env_nokeys
              "world_of [] False service0"]
  by (simp add: post_def body0_def env_nokeys_def unparsed_def)

text \<open>
  Claim C10. When the lookup of a valid, configured request returns an error, the answer
  is 200 with \<open>{ sent: 0, message: "No subscriptions found" }\<close>, exactly the answer for a
  user without subscriptions; nothing is sent and nothing is deleted.
\<close>

theorem lookup_error_reads_as_empty:
  assumes "valid_configured e req b w" and "select_error w"
  shows "serve e req w =
     (\<lparr>status = 200,
       resp_body = Some [(''sent'', JNum 0), (''message'', JStr ''No subscriptions found'')]\<rparr>,
      w\<lparr>store_log := store_log w @ [Select (req_user_id b)]\<rparr>)"
  using assms by (simp add: serve_valid json_response_def)

theorem lookup_error_reads_as_empty_witness:
  "valid_configured env0 (post (body0 (JStr ''approved''))) (body0 (JStr ''approved''))
     (world_of table3 True service0)
   \<and> select_error (world_of table3 True service0)
   \<and> subscriptions_of (JStr ''u1'') (world_of table3 True service0) \<noteq> []
   \<and> fst (serve env0 (post (body0 (JStr ''approved''))) (world_of table3 True service0))
      = \<lparr>status = 200,
         resp_body = Some [(''sent'', JNum 0), (''message'', JStr ''No subscriptions found'')]\<rparr>
   \<and> attempts (snd (serve env0 (post (body0 (JStr ''approved''))) (world_of table3 True service0))) = []"
proof -
  have v: "valid_configured env0 (post (body0 (JStr ''approved''))) (body0 (JStr ''approved''))
     (world_of table3 True service0)"
    by (simp add: valid0)
  have s: "select_error (world_of table3 True service0)"
    by (simp add: world_of_def)
  show ?thesis
    using v s lookup_error_reads_as_empty [OF v s]
    by (simp add: subs_table3) (simp add: world_of_def)
qed

text \<open>
  Claim C3. Whatever the push service answers to each send (the function \<open>transport w\<close> is
  arbitrary), a request that reaches the loop is answered 200 with the aggregate
  \<open>{ sent, failed }\<close>, never by the outer \<open>catch\<close>, and the sends issued are exactly one per
  subscription of the user, in the order of the list: a rejected send stops nothing.
\<close>

theorem batch_completes:
  assumes "dispatching e req b w"
  shows "(\<exists>sent failed. fst (serve e req w) =
            \<lparr>status = 200, resp_body = Some [(''sent'', JNum sent), (''failed'', JNum failed)]\<rparr>)
       \<and> attempts (snd (serve e req w)) =
           attempts w @ map (\<lambda>sub. (pushSubscription_of sub, notificationPayload b))
                          (subscriptions_of (req_user_id b) w)"
  using assms by (simp add: serve_dispatching json_response_def)

theorem batch_completes_witness:
  "dispatching env0 (post (body0 (JStr ''approved''))) (body0 (JStr ''approved''))
     (world_of table3 False service0)
   \<and> status (fst (serve env0 (post (body0 (JStr ''approved''))) (world_of table3 False service0)))
       = 200
   \<and> map (sub_endpoint \<circ> fst)
       (attempts (snd (serve env0 (post (body0 (JStr ''approved'')))
                         (world_of table3 False service0))))
       = [''https://push/a'', ''https://push/b'', ''https://push/c'']"
proof -
  have d: "dispatching env0 (post (body0 (JStr ''approved''))) (body0 (JStr ''approved''))
     (world_of table3 False service0)"
    by (simp add: dispatching0 table3_def row_def)
  have b: "req_user_id (body0 (JStr ''approved'')) = JStr ''u1''"
    by (simp add: body0_def)
  have a: "attempts (world_of table3 False service0) = []"
    by (simp add: world_of_def)
  from batch_completes [OF d] obtain sent failed where
    "fst (serve env0 (post (body0 (JStr ''approved''))) (world_of table3 False service0)) =
       \<lparr>status = 200, resp_body = Some [(''sent'', JNum sent), (''failed'', JNum failed)]\<rparr>"
    and "attempts (snd (serve env0 (post (body0 (JStr ''approved'')))
                         (world_of table3 False service0))) =
           attempts (world_of table3 False service0)
           @ map (\<lambda>sub. (pushSubscription_of sub, notificationPayload (body0 (JStr ''approved''))))
               (subscriptions_of (req_user_id (body0 (JStr ''approved'')))
                  (world_of table3 False service0))"
    by blast
  then show ?thesis
    using d by (simp add: a b subs_table3 pushSubscription_of_def row_def)
qed

text \<open>
  Claim C7. For a request that reaches the loop the body of the answer is exactly
  \<open>{ sent, failed }\<close>: \<open>sent\<close> is the number of sends classified delivered, \<open>failed\<close> is the
  length of the prune list, which is the list handed to the one delete call (no delete when
  it is empty); two numbers and nothing per endpoint. While the table satisfies its
  uniqueness constraint the prune list has no repetition, so its length is the size of the
  prune set.
\<close>

theorem aggregate_counts:
  assumes "dispatching e req b w"
  shows "fst (serve e req w) =
      \<lparr>status = 200,
       resp_body = Some
         [(''sent'', JNum (int (length (filter (\<lambda>r. classify r = delivered)
             (results w (length (subscriptions_of (req_user_id b) w))))))),
          (''failed'', JNum (int (length (pruned (subscriptions_of (req_user_id b) w)
             (results w (length (subscriptions_of (req_user_id b) w)))))))]\<rparr>
    \<and> store_log (snd (serve e req w)) =
        store_log w @ Select (req_user_id b) #
          (if pruned (subscriptions_of (req_user_id b) w)
                (results w (length (subscriptions_of (req_user_id b) w))) = [] then []
           else [Delete (pruned (subscriptions_of (req_user_id b) w)
                   (results w (length (subscriptions_of (req_user_id b) w))))])
    \<and> (unique_key (table w) \<longrightarrow>
         length (pruned (subscriptions_of (req_user_id b) w)
                   (results w (length (subscriptions_of (req_user_id b) w))))
         = card (set (pruned (subscriptions_of (req_user_id b) w)
                   (results w (length (subscriptions_of (req_user_id b) w))))))"
proof -
  have "unique_key (table w) \<longrightarrow>
         length (pruned (subscriptions_of (req_user_id b) w)
                   (results w (length (subscriptions_of (req_user_id b) w))))
         = card (set (pruned (subscriptions_of (req_user_id b) w)
                   (results w (length (subscriptions_of (req_user_id b) w)))))"
    by (simp add: unique_key_subscriptions distinct_pruned distinct_card)
  then show ?thesis
    using assms by (simp add: serve_dispatching json_response_def)
qed

theorem aggregate_counts_witness:
  "dispatching env0 (post (body0 (JStr ''approved''))) (body0 (JStr ''approved''))
     (world_of table3 False service0)
   \<and> unique_key (table (world_of table3 False service0))
   \<and> fst (serve env0 (post (body0 (JStr ''approved''))) (world_of table3 False service0))
       = \<lparr>status = 200, resp_body = Some [(''sent'', JNum 1), (''failed'', JNum 1)]\<rparr>
   \<and> store_log (snd (serve env0 (post (body0 (JStr ''approved'')))
                        (world_of table3 False service0)))
       = [Select (JStr ''u1''), Delete [''https://push/b'']]"
proof -
  have d: "dispatching env0 (post (body0 (JStr ''approved''))) (body0 (JStr ''approved''))
     (world_of table3 False service0)"
    by (simp add: dispatching0 table3_def row_def)
  have u: "unique_key (table (world_of table3 False service0))"
    by (simp add: world_of_def unique_table3)
  have b: "req_user_id (body0 (JStr ''approved'')) = JStr ''u1''"
    by (simp add: body0_def)
  have l: "store_log (world_of table3 False service0) = []"
    by (simp add: world_of_def)
  show ?thesis
    using d u aggregate_counts [OF d]
    by (simp add: b l subs_table3 results_service0_Suc pruned_def row_def)
qed

text \<open>
  The status \<open>"pending"\<close> is answered 200 with \<open>sent = 1\<close>, and the three sends carry the
  "rejected" title.
\<close>

theorem unknown_status_counterexample:
  "fst (serve env0 (post (body0 (JStr ''pending''))) (world_of table3 False service0))
     = \<lparr>status = 200, resp_body = Some [(''sent'', JNum 1), (''failed'', JNum 1)]\<rparr>
   \<and> map (title \<circ> snd)
       (attempts (snd (serve env0 (post (body0 (JStr ''pending'')))
                         (world_of table3 False service0))))
     = [title_rejected, title_rejected, title_rejected]"
proof -
  have d: "dispatching env0 (post (body0 (JStr ''pending''))) (body0 (JStr ''pending''))
     (world_of table3 False service0)"
    by (simp add: dispatching0 table3_def row_def)
  have b: "req_user_id (body0 (JStr ''pending'')) = JStr ''u1''"
    by (simp add: body0_def)
  have l: "attempts (world_of table3 False service0) = []"
    by (simp add: world_of_def)
  have t: "title (notificationPayload (body0 (JStr ''pending''))) = title_rejected"
    by (simp add: notificationPayload_def body0_def)
  show ?thesis
    by (simp add: serve_dispatching [OF d] b l t subs_table3 results_service0_Suc pruned_def
          json_response_def)
qed

text \<open>
  Claim C1, as the code has it. The payload has two cases only, \<open>new_status === "approved"\<close>
  and everything else. A request that reaches the loop with any other status, known or
  not, is not rejected: it is answered 200 with the aggregate, and every subscription is
  sent the "rejected" notification, whose title and body are not blank.
\<close>

theorem unknown_status_sent_as_rejected:
  assumes "dispatching e req b w" and "new_status b \<noteq> JStr ''approved''"
  shows "(\<exists>sent failed. fst (serve e req w) =
            \<lparr>status = 200, resp_body = Some [(''sent'', JNum sent), (''failed'', JNum failed)]\<rparr>)
       \<and> attempts (snd (serve e req w)) =
           attempts w @ map (\<lambda>sub. (pushSubscription_of sub, notificationPayload b))
                          (subscriptions_of (req_user_id b) w)
       \<and> title (notificationPayload b) = title_rejected
       \<and> body (notificationPayload b) = body_rejected
       \<and> title_rejected \<noteq> [] \<and> body_rejected \<noteq> []"
  using assms(2)
  by (simp add: serve_dispatching [OF assms(1)] json_response_def notificationPayload_def
        title_rejected_def body_rejected_def)

theorem unknown_status_sent_as_rejected_witness:
  "dispatching env0 (post (body0 (JStr ''pending''))) (body0 (JStr ''pending''))
     (world_of table3 False service0)
   \<and> new_status (body0 (JStr ''pending'')) \<noteq> JStr ''approved''
   \<and> status (fst (serve env0 (post (body0 (JStr ''pending''))) (world_of table3 False service0)))
       = 200
   \<and> length (attempts (snd (serve env0 (post (body0 (JStr ''pending'')))
                               (world_of table3 False service0)))) = 3
   \<and> title (notificationPayload (body0 (JStr ''pending''))) = title_rejected"
proof -
  have d: "dispatching env0 (post (body0 (JStr ''pending''))) (body0 (JStr ''pending''))
     (world_of table3 False service0)"
    by (simp add: dispatching0 table3_def row_def)
  have n: "new_status (body0 (JStr ''pending'')) \<noteq> JStr ''approved''"
    by (simp add: body0_def)
  have b: "req_user_id (body0 (JStr ''pending'')) = JStr ''u1''"
    by (simp add: body0_def)
  have l: "attempts (world_of table3 False service0) = []"
    by (simp add: world_of_def)
  from unknown_status_sent_as_rejected [OF d n] obtain sent failed where
    "fst (serve env0 (post (body0 (JStr ''pending''))) (world_of table3 False service0)) =
       \<lparr>status = 200, resp_body = Some [(''sent'', JNum sent), (''failed'', JNum failed)]\<rparr>"
    and "attempts (snd (serve env0 (post (body0 (JStr ''pending'')))
                         (world_of table3 False service0))) =
           attempts (world_of table3 False service0)
           @ map (\<lambda>sub. (pushSubscription_of sub, notificationPayload (body0 (JStr ''pending''))))
               (subscriptions_of (req_user_id (body0 (JStr ''pending'')))
                  (world_of table3 False service0))"
    and "title (notificationPayload (body0 (JStr ''pending''))) = title_rejected"
    by blast
  then show ?thesis
    using d n by (simp add: b l subs_table3)
qed

text \<open>
  With the same endpoint twice in the user's list and the push service answering 410, the
  endpoint is sent to twice, handed to the delete call twice and counted twice in \<open>failed\<close>.
\<close>

theorem duplicate_endpoints_counterexample:
  "store_log (snd (serve env0 (post (body0 (JStr ''approved'')))
                     (world_of table_dup False gone_service)))
     = [Select (JStr ''u1''), Delete [''https://push/a'', ''https://push/a'']]
   \<and> map (sub_endpoint \<circ> fst)
       (attempts (snd (serve env0 (post (body0 (JStr ''approved'')))
                         (world_of table_dup False gone_service))))
     = [''https://push/a'', ''https://push/a'']
   \<and> fst (serve env0 (post (body0 (JStr ''approved''))) (world_of table_dup False gone_service))
     = \<lparr>status = 200, resp_body = Some [(''sent'', JNum 0), (''failed'', JNum 2)]\<rparr>"
proof -
  have d: "dispatching env0 (post (body0 (JStr ''approved''))) (body0 (JStr ''approved''))
     (world_of table_dup False gone_service)"
    by (simp add: dispatching0 table_dup_def row_def)
  have b: "req_user_id (body0 (JStr ''approved'')) = JStr ''u1''"
    by (simp add: body0_def)
  have l: "store_log (world_of table_dup False gone_service) = []"
    "attempts (world_of table_dup False gone_service) = []"
    by (simp_all add: world_of_def)
  show ?thesis
    by (simp add: serve_dispatching [OF d] b l subs_table_dup results_gone_service pruned_def
          row_def json_response_def pushSubscription_of_def)
qed

text \<open>
  Claim C4, as the code has it. The handler does not deduplicate: every row of the list is
  sent to, and every attempt classified permanent appends its endpoint to the prune list,
  so an endpoint occurs in the prune list as many times as attempts to it failed
  permanently. The prune list is handed to one delete call (none when it is empty). While
  the table satisfies \<open>UNIQUE(user_id, endpoint)\<close> the endpoints of one user's list are
  pairwise distinct, hence each endpoint is attempted once and occurs at most once in the
  prune list.
\<close>

theorem prune_list_without_dedup:
  assumes "dispatching e req b w"
  shows "store_log (snd (serve e req w)) =
        store_log w @ Select (req_user_id b) #
          (if pruned (subscriptions_of (req_user_id b) w)
                (results w (length (subscriptions_of (req_user_id b) w))) = [] then []
           else [Delete (pruned (subscriptions_of (req_user_id b) w)
                   (results w (length (subscriptions_of (req_user_id b) w))))])
    \<and> map (sub_endpoint \<circ> fst) (drop (length (attempts w)) (attempts (snd (serve e req w))))
        = map endpoint (subscriptions_of (req_user_id b) w)
    \<and> count_list (pruned (subscriptions_of (req_user_id b) w)
                    (results w (length (subscriptions_of (req_user_id b) w)))) ep
        = length (filter (\<lambda>(sub, r). endpoint sub = ep \<and> classify r = permanent_failure)
                   (zip (subscriptions_of (req_user_id b) w)
                        (results w (length (subscriptions_of (req_user_id b) w)))))
    \<and> (unique_key (table w) \<longrightarrow>
         distinct (map endpoint (subscriptions_of (req_user_id b) w))
         \<and> distinct (pruned (subscriptions_of (req_user_id b) w)
                      (results w (length (subscriptions_of (req_user_id b) w)))))"
proof -
  have "map (sub_endpoint \<circ> fst)
          (map (\<lambda>sub. (pushSubscription_of sub, notificationPayload b))
             (subscriptions_of (req_user_id b) w))
        = map endpoint (subscriptions_of (req_user_id b) w)"
    by (simp add: pushSubscription_of_def)
  then show ?thesis
    by (simp add: serve_dispatching [OF assms] count_pruned unique_key_subscriptions
          distinct_pruned)
qed

theorem prune_list_without_dedup_witness:
  "dispatching env0 (post (body0 (JStr ''approved''))) (body0 (JStr ''approved''))
     (world_of table3 False service0)
   \<and> unique_key (table (world_of table3 False service0))
   \<and> store_log (snd (serve env0 (post (body0 (JStr ''approved'')))
                        (world_of table3 False service0)))
       = [Select (JStr ''u1''), Delete [''https://push/b'']]
   \<and> map (sub_endpoint \<circ> fst)
       (attempts (snd (serve env0 (post (body0 (JStr ''approved'')))
                         (world_of table3 False service0))))
       = [''https://push/a'', ''https://push/b'', ''https://push/c'']
   \<and> distinct [''https://push/b'']"
proof -
  have d: "dispatching env0 (post (body0 (JStr ''approved''))) (body0 (JStr ''approved''))
     (world_of table3 False service0)"
    by (simp add: dispatching0 table3_def row_def)
  have u: "unique_key (table (world_of table3 False service0))"
    by (simp add: world_of_def unique_table3)
  have b: "req_user_id (body0 (JStr ''approved'')) = JStr ''u1''"
    by (simp add: body0_def)
  have l: "store_log (world_of table3 False service0) = []"
    "attempts (world_of table3 False service0) = []"
    by (simp_all add: world_of_def)
  show ?thesis
    using d u prune_list_without_dedup [OF d, of "''https://push/b''"]
    by (simp add: b l subs_table3 results_service0_Suc pruned_def row_def)
qed

section \<open>The timing of the loop\<close>




section \<open>Properties of the registration\<close>

text \<open>
  Claim C9, on the failing path. An ordinary signed-in user registers an endpoint that has
  no row yet, then registers the same endpoint again, with any keys. The first upsert
  inserts the row. The second takes the update path, which the policies refuse to anyone
  but an admin: the hook gets the error, the table is unchanged, and the one row of the
  pair still carries the keys of the first upsert.
\<close>

theorem second_upsert_refused:
  assumes "auth_uid s = Some uid" and "\<not> has_admin_role s"
    and "sub_endpoint sub2 = sub_endpoint sub1"
    and "filter (\<lambda>r. user_id r = uid \<and> endpoint r = sub_endpoint sub1) tbl = []"
  shows "subscribe s sub1 tbl = (Activated, tbl @ [subscription_row uid sub1])
       \<and> subscribe s sub2 (snd (subscribe s sub1 tbl))
           = (ActivationFailed RlsViolation, tbl @ [subscription_row uid sub1])
       \<and> filter (\<lambda>r. user_id r = uid \<and> endpoint r = sub_endpoint sub1)
           (snd (subscribe s sub2 (snd (subscribe s sub1 tbl))))
           = [subscription_row uid sub1]"
proof -
  let ?r1 = "subscription_row uid sub1"
  let ?r2 = "subscription_row uid sub2"
  have k1: "user_id ?r1 = uid" "endpoint ?r1 = sub_endpoint sub1"
    and k2: "user_id ?r2 = uid" "endpoint ?r2 = sub_endpoint sub1"
    using assms(3) by (simp_all add: subscription_row_def)
  have "insert_allowed s ?r1"
    using assms(1) by (simp add: insert_allowed_def k1)
  then have u1: "upsert s ?r1 tbl = Inr (tbl @ [?r1])"
    using assms(4) by (simp add: upsert_fresh k1)
  have first: "subscribe s sub1 tbl = (Activated, tbl @ [?r1])"
    by (simp add: subscribe_def assms(1) u1)
  have "\<not> admin_policy s"
    using assms(2) by (simp add: admin_policy_def)
  moreover have "filter (\<lambda>r. user_id r = user_id ?r2 \<and> endpoint r = endpoint ?r2) (tbl @ [?r1]) \<noteq> []"
    by (simp add: k1 k2)
  ultimately have u2: "upsert s ?r2 (tbl @ [?r1]) = Inl RlsViolation"
    by (rule upsert_conflict_refused [rotated])
  have second: "subscribe s sub2 (tbl @ [?r1]) = (ActivationFailed RlsViolation, tbl @ [?r1])"
    by (simp add: subscribe_def assms(1) u2)
  show ?thesis
    using assms(4) by (simp add: first second k1)
qed

theorem second_upsert_refused_witness:
  "auth_uid user1 = Some ''u1'' \<and> \<not> has_admin_role user1
   \<and> sub_endpoint (browser_sub ''k2'' ''a2'') = sub_endpoint (browser_sub ''k1'' ''a1'')
   \<and> filter (\<lambda>r. user_id r = ''u1'' \<and> endpoint r = sub_endpoint (browser_sub ''k1'' ''a1'')) table3 = []
   \<and> fst (subscribe user1 (browser_sub ''k2'' ''a2'')
            (snd (subscribe user1 (browser_sub ''k1'' ''a1'') table3)))
       = ActivationFailed RlsViolation
   \<and> filter (\<lambda>r. user_id r = ''u1'' \<and> endpoint r = ''https://push/n'')
        (snd (subscribe user1 (browser_sub ''k2'' ''a2'')
                (snd (subscribe user1 (browser_sub ''k1'' ''a1'') table3))))
       = [\<lparr>user_id = ''u1'', endpoint = ''https://push/n'', p256dh = ''k1'', auth = ''a1''\<rparr>]"
proof -
  have h: "auth_uid user1 = Some ''u1''" "\<not> has_admin_role user1"
    "sub_endpoint (browser_sub ''k2'' ''a2'') = sub_endpoint (browser_sub ''k1'' ''a1'')"
    "filter (\<lambda>r. user_id r = ''u1'' \<and> endpoint r = sub_endpoint (browser_sub ''k1'' ''a1'')) table3 = []"
    by (simp_all add: user1_def browser_sub_def table3_def row_def)
  show ?thesis
    using h second_upsert_refused [OF h]
    by (auto simp: subscription_row_def browser_sub_def)
qed

end
